theory Spec2Isabelle
  imports Main "HOL-Library.AList" "HOL-Library.Sublist"
begin

section \<open>JavaScript values\<close>

text \<open>
  The front end is JavaScript: request bodies, response bodies and component state hold
  dynamically typed values. Strings are modelled as their UTF-8 byte sequences, so that
  \<open>startsWith\<close> is \<^const>\<open>prefix\<close> and concatenation is \<open>@\<close>.

  A Number is either an integer-valued double of magnitude below \<open>2^53\<close> (\<open>Int_num\<close>,
  exact; negative zero is \<open>Int_num 0\<close>), or any other double (\<open>Other_num\<close>), which is
  identified by its canonical rendering \<open>Number::toString\<close>: the code never does
  arithmetic on Numbers, it only renders them, tests their truthiness and compares them.

  An object is the list of its own properties, each key once, as \<open>JSON.parse\<close> and an
  object literal make it; an array is the list of its elements.
\<close>

datatype jsnum = Int_num int | Other_num string

datatype jsval =
    Undefined
  | Null
  | Bool bool
  | Num jsnum
  | Str string
  | Arr "jsval list"
  | Obj "(string \<times> jsval) list"

text \<open>Thrown values: errors of the HTTP client, which may carry the response and a code,
  and the built-in errors, which carry only their message.\<close>

record http_response =
  resp_status :: int
  resp_data :: jsval

datatype js_error =
    AxiosError "http_response option" "string option" string
  | TypeError string
  | SyntaxError string
  | Error string

fun err_response :: "js_error \<Rightarrow> http_response option" where
  "err_response (AxiosError r c m) = r"
| "err_response (TypeError m) = None"
| "err_response (SyntaxError m) = None"
| "err_response (Error m) = None"

fun err_code :: "js_error \<Rightarrow> string option" where
  "err_code (AxiosError r c m) = c"
| "err_code (TypeError m) = None"
| "err_code (SyntaxError m) = None"
| "err_code (Error m) = None"

fun err_message :: "js_error \<Rightarrow> string" where
  "err_message (AxiosError r c m) = m"
| "err_message (TypeError m) = m"
| "err_message (SyntaxError m) = m"
| "err_message (Error m) = m"

text \<open>\<open>typeof v\<close>.\<close>

fun typeof :: "jsval \<Rightarrow> string" where
  "typeof Undefined = ''undefined''"
| "typeof Null = ''object''"
| "typeof (Bool b) = ''boolean''"
| "typeof (Num n) = ''number''"
| "typeof (Str s) = ''string''"
| "typeof (Arr xs) = ''object''"
| "typeof (Obj kvs) = ''object''"

text \<open>Truthiness, as tested by \<open>if (v)\<close>, \<open>v || d\<close> and \<open>v && w\<close>.\<close>

fun truthy :: "jsval \<Rightarrow> bool" where
  "truthy Undefined = False"
| "truthy Null = False"
| "truthy (Bool b) = b"
| "truthy (Num (Int_num i)) = (i \<noteq> 0)"
| "truthy (Num (Other_num s)) = (s \<noteq> ''NaN'')"
| "truthy (Str s) = (s \<noteq> [])"
| "truthy (Arr xs) = True"
| "truthy (Obj kvs) = True"

text \<open>\<open>a || b\<close> on values.\<close>

definition js_or :: "jsval \<Rightarrow> jsval \<Rightarrow> jsval" where
  "js_or a b = (if truthy a then a else b)"

text \<open>Property access \<open>v.k\<close> for a key \<open>k\<close> that no prototype defines (all the keys read
  by the code are of that kind): it throws on \<open>undefined\<close> and \<open>null\<close>, finds own
  properties of an object, and is \<open>undefined\<close> otherwise.\<close>

definition msg_cannot_read :: string where
  "msg_cannot_read = ''Cannot read properties of undefined or null''"

definition msg_cannot_convert :: string where
  "msg_cannot_convert = ''Cannot convert object to primitive value''"

definition msg_not_a_function :: string where
  "msg_not_a_function = ''startsWith is not a function''"

fun get_prop :: "jsval \<Rightarrow> string \<Rightarrow> js_error + jsval" where
  "get_prop Undefined k = Inl (TypeError msg_cannot_read)"
| "get_prop Null k = Inl (TypeError msg_cannot_read)"
| "get_prop (Obj kvs) k = (case map_of kvs k of Some v \<Rightarrow> Inr v | None \<Rightarrow> Inr Undefined)"
| "get_prop (Bool b) k = Inr Undefined"
| "get_prop (Num n) k = Inr Undefined"
| "get_prop (Str s) k = Inr Undefined"
| "get_prop (Arr xs) k = Inr Undefined"

text \<open>Decimal digits of a natural number.\<close>

definition digit_char :: "nat \<Rightarrow> char" where
  "digit_char d = char_of (48 + d)"

function nat_to_decimal :: "nat \<Rightarrow> string" where
  "nat_to_decimal n =
     (if n < 10 then [digit_char n] else nat_to_decimal (n div 10) @ [digit_char (n mod 10)])"
  by pat_completeness auto
termination
  by (relation "measure (\<lambda>n. n)") auto

declare nat_to_decimal.simps [simp del]

text \<open>\<open>Number::toString\<close>: the decimal digits of an integer, with a sign; the canonical
  rendering that identifies any other Number.\<close>

fun Number_toString :: "jsnum \<Rightarrow> string" where
  "Number_toString (Int_num i) =
     (if i < 0 then ''-'' @ nat_to_decimal (nat (- i)) else nat_to_decimal (nat i))"
| "Number_toString (Other_num s) = s"





text \<open>\<open>String(v)\<close> and the conversion of a template literal, \<open>ToString\<close>. \<open>None\<close> stands for the
  \<open>TypeError\<close> thrown when an object has no primitive value: a decoded JSON object with
  an own key \<open>toString\<close> hides the inherited method behind a value that cannot be called.
  An array is joined with commas, \<open>undefined\<close> and \<open>null\<close> elements rendering as empty.\<close>

fun ToString :: "jsval \<Rightarrow> string option"
  and array_join :: "jsval list \<Rightarrow> string option"
  and element_string :: "jsval \<Rightarrow> string option" where
  "ToString Undefined = Some ''undefined''"
| "ToString Null = Some ''null''"
| "ToString (Bool b) = Some (if b then ''true'' else ''false'')"
| "ToString (Num n) = Some (Number_toString n)"
| "ToString (Str s) = Some s"
| "ToString (Arr xs) = array_join xs"
| "ToString (Obj kvs) =
     (if ''toString'' \<in> fst ` set kvs then None else Some ''[object Object]'')"
| "array_join [] = Some []"
| "array_join [x] = element_string x"
| "array_join (x # y # ys) =
     (case element_string x of
        None \<Rightarrow> None
      | Some a \<Rightarrow> (case array_join (y # ys) of None \<Rightarrow> None | Some b \<Rightarrow> Some (a @ '','' @ b)))"
| "element_string v = (if v = Undefined \<or> v = Null then Some [] else ToString v)"

definition String_js :: "jsval \<Rightarrow> js_error + string" where
  "String_js v = (case ToString v of None \<Rightarrow> Inl (TypeError msg_cannot_convert) | Some s \<Rightarrow> Inr s)"

section \<open>Configuration\<close>

text \<open>The build-time environment \<open>import.meta.env\<close>: each variable is a string or
  undefined. \<open>v || d\<close> falls back to \<open>d\<close> when \<open>v\<close> is undefined or empty.\<close>

record env =
  VITE_API_BASE_URL :: "string option"
  VITE_MERCHANT_SERVICE_URL :: "string option"
  VITE_PAYMENT_SERVICE_URL :: "string option"

fun or_default :: "string option \<Rightarrow> string \<Rightarrow> string" where
  "or_default None d = d"
| "or_default (Some s) d = (if s = [] then d else s)"

definition API_BASE_URL :: "env \<Rightarrow> string" where
  "API_BASE_URL e = or_default (VITE_API_BASE_URL e) ''http://localhost:8000''"

section \<open>Surfacing the next-action URL (PaymentForm.jsx)\<close>

text \<open>The conditional expression of lines 34-36 and of lines 200-202: a URL that starts with
  \<open>http\<close> is used as it is, any other is appended to the gateway address.\<close>

definition startsWith :: "string \<Rightarrow> string \<Rightarrow> bool" where
  "startsWith s p = prefix p s"

definition fullUrl :: "env \<Rightarrow> string \<Rightarrow> string" where
  "fullUrl e next_action_url =
     (let gatewayUrl = or_default (VITE_API_BASE_URL e) ''http://localhost:8000''
      in if startsWith next_action_url ''http'' then next_action_url
         else gatewayUrl @ next_action_url)"

text \<open>The rule in the words of the specification: the URL "already starts with a scheme
  (\<open>http\<close>/\<open>https\<close>)", that is, with \<open>http://\<close> or with \<open>https://\<close>. It is not what
  the code tests; the two are compared below.\<close>

definition starts_with_scheme :: "string \<Rightarrow> bool" where
  "starts_with_scheme u = (prefix ''http://'' u \<or> prefix ''https://'' u)"

text \<open>Lines 32-40 of \<open>handleSubmit\<close>: the URL of the window opened for a created payment
  \<open>result\<close>, if one is opened. Calling \<open>startsWith\<close> on a truthy value that is not a string
  throws.\<close>

definition handleSubmit_window_open :: "env \<Rightarrow> jsval \<Rightarrow> js_error + string option" where
  "handleSubmit_window_open e result =
     (case get_prop result ''requires_action'' of
        Inl err \<Rightarrow> Inl err
      | Inr requires_action \<Rightarrow>
          if \<not> truthy requires_action then Inr None
          else (case get_prop result ''next_action_url'' of
                  Inl err \<Rightarrow> Inl err
                | Inr next_action_url \<Rightarrow>
                    if \<not> truthy next_action_url then Inr None
                    else (case next_action_url of
                            Str u \<Rightarrow> Inr (Some (fullUrl e u))
                          | _ \<Rightarrow> Inl (TypeError msg_not_a_function))))"

text \<open>Lines 192-212 of the rendered result: the target of the link, if the link is rendered.
  The payment result is truthy there (line 151).\<close>

definition link_href :: "env \<Rightarrow> jsval \<Rightarrow> js_error + string option" where
  "link_href e paymentResult =
     (case get_prop paymentResult ''requires_action'' of
        Inl err \<Rightarrow> Inl err
      | Inr requires_action \<Rightarrow>
          if \<not> truthy requires_action then Inr None
          else (case get_prop paymentResult ''next_action_url'' of
                  Inl err \<Rightarrow> Inl err
                | Inr next_action_url \<Rightarrow>
                    if \<not> truthy next_action_url then Inr None
                    else (case next_action_url of
                            Str u \<Rightarrow>
                              Inr (Some (if startsWith u ''http'' then u
                                         else or_default (VITE_API_BASE_URL e) ''http://localhost:8000'' @ u))
                          | _ \<Rightarrow> Inl (TypeError msg_not_a_function))))"

section \<open>Transport client (api/client.js)\<close>

datatype http_method = GET | POST | PUT | PATCH

text \<open>A request configuration of the HTTP client. \<open>cfg_apiKey\<close> is the custom field
  \<open>apiKey\<close> of a call's configuration (\<open>None\<close>: the field is absent).\<close>

record config =
  cfg_method :: http_method
  cfg_url :: string
  cfg_baseURL :: string
  cfg_headers :: "(string \<times> jsval) list"
  cfg_data :: "jsval option"
  cfg_params :: "(string \<times> jsval) list"
  cfg_apiKey :: "jsval option"

text \<open>The configuration object a caller passes with one call.\<close>

record call_config =
  opt_apiKey :: "jsval option"
  opt_baseURL :: "string option"
  opt_params :: "(string \<times> jsval) list"

text \<open>The request interceptor (lines 15-23): \<open>config.headers['X-API-Key'] = config.apiKey\<close>,
  then \<open>delete config.apiKey\<close>, when \<open>config.apiKey\<close> is truthy.\<close>

definition request_interceptor :: "config \<Rightarrow> config" where
  "request_interceptor c =
     (case cfg_apiKey c of
        None \<Rightarrow> c
      | Some k \<Rightarrow>
          if truthy k
          then c\<lparr>cfg_headers := AList.update ''X-API-Key'' k (cfg_headers c), cfg_apiKey := None\<rparr>
          else c)"

text \<open>The instance made by \<open>axios.create\<close> (lines 7-12) merges its defaults, the gateway
  base address and the content type, with the configuration of the call.\<close>

definition apiClient_config ::
  "env \<Rightarrow> http_method \<Rightarrow> string \<Rightarrow> jsval option \<Rightarrow> call_config \<Rightarrow> config" where
  "apiClient_config e m url body opts =
     \<lparr>cfg_method = m,
      cfg_url = url,
      cfg_baseURL = (case opt_baseURL opts of Some b \<Rightarrow> b | None \<Rightarrow> API_BASE_URL e),
      cfg_headers = [(''Content-Type'', Str ''application/json'')],
      cfg_data = body,
      cfg_params = opt_params opts,
      cfg_apiKey = opt_apiKey opts\<rparr>"

text \<open>The network and the services behind it are the environment of the program: a
  transition function on a state \<open>'w\<close> of the outside world, which answers a request with a
  response (the promise resolves) or an error (the promise rejects). The client state also
  records every request issued, with its outcome, in order.\<close>

type_synonym outcome = "js_error + http_response"

type_synonym 'w transport = "config \<Rightarrow> 'w \<Rightarrow> outcome \<times> 'w"

record 'w net =
  backend :: 'w
  sent :: "(config \<times> outcome) list"

definition dispatch :: "'w transport \<Rightarrow> config \<Rightarrow> 'w net \<Rightarrow> outcome \<times> 'w net" where
  "dispatch tr c s =
     (let c' = request_interceptor c;
          (out, w') = tr c' (backend s)
      in (out, \<lparr>backend = w', sent = sent s @ [(c', out)]\<rparr>))"

definition apiClient_get ::
  "'w transport \<Rightarrow> env \<Rightarrow> string \<Rightarrow> call_config \<Rightarrow> 'w net \<Rightarrow> outcome \<times> 'w net" where
  "apiClient_get tr e url opts s = dispatch tr (apiClient_config e GET url None opts) s"

definition apiClient_post ::
  "'w transport \<Rightarrow> env \<Rightarrow> string \<Rightarrow> jsval \<Rightarrow> call_config \<Rightarrow> 'w net \<Rightarrow> outcome \<times> 'w net" where
  "apiClient_post tr e url body opts s = dispatch tr (apiClient_config e POST url (Some body) opts) s"

text \<open>The requests issued between two client states.\<close>

definition issued :: "'w net \<Rightarrow> 'w net \<Rightarrow> (config \<times> outcome) list" where
  "issued s s' = drop (length (sent s)) (sent s')"

section \<open>Merchant operations\<close>

text \<open>\<open>createMerchant\<close>: the first attempt, and in the handler of its failure the second,
  both with \<open>baseURL: merchantServiceUrl\<close>.\<close>

definition createMerchant ::
  "'w transport \<Rightarrow> env \<Rightarrow> jsval \<Rightarrow> 'w net \<Rightarrow> (js_error + jsval) \<times> 'w net" where
  "createMerchant tr e nameOrData s =
     (let merchantServiceUrl = or_default (VITE_MERCHANT_SERVICE_URL e) ''http://localhost:8001'';
          merchantData = (if typeof nameOrData = ''string''
                          then Obj [(''name'', nameOrData)] else nameOrData);
          (r, s1) = apiClient_post tr e ''/api/v1/merchants'' merchantData
                      \<lparr>opt_apiKey = None, opt_baseURL = Some merchantServiceUrl, opt_params = []\<rparr> s
      in case r of
           Inr response \<Rightarrow> (Inr (resp_data response), s1)
         | Inl err \<Rightarrow>
             if map_option resp_status (err_response err) = Some 404
                \<or> err_code err = Some ''ECONNREFUSED''
             then
               (let merchantServiceUrl = or_default (VITE_MERCHANT_SERVICE_URL e) ''http://localhost:8001'';
                    merchantData = (if typeof nameOrData = ''string''
                                    then Obj [(''name'', nameOrData)] else nameOrData);
                    (r2, s2) = apiClient_post tr e ''/api/v1/merchants'' merchantData
                                 \<lparr>opt_apiKey = None, opt_baseURL = Some merchantServiceUrl,
                                  opt_params = []\<rparr> s1
                in case r2 of
                     Inr response \<Rightarrow> (Inr (resp_data response), s2)
                   | Inl err2 \<Rightarrow> (Inl err2, s2))
             else (Inl err, s1))"

text \<open>\<open>getDashboard\<close>: the dashboard payload, the merchant of the key, the payments of
  that merchant; \<open>catch (error) { throw error }\<close> rethrows whatever was thrown.\<close>

definition getDashboard ::
  "'w transport \<Rightarrow> env \<Rightarrow> jsval \<Rightarrow> 'w net \<Rightarrow> (js_error + jsval) \<times> 'w net" where
  "getDashboard tr e apiKey s =
     (let merchantServiceUrl = or_default (VITE_MERCHANT_SERVICE_URL e) ''http://localhost:8001'';
          (r1, s1) = apiClient_get tr e ''/api/v1/dashboard''
                       \<lparr>opt_apiKey = Some apiKey, opt_baseURL = Some merchantServiceUrl,
                        opt_params = []\<rparr> s
      in case r1 of
           Inl err \<Rightarrow> (Inl err, s1)
         | Inr dashboardResponse \<Rightarrow>
             (let (r2, s2) = apiClient_get tr e ''/api/v1/merchants/me''
                               \<lparr>opt_apiKey = Some apiKey, opt_baseURL = Some merchantServiceUrl,
                                opt_params = []\<rparr> s1
              in case r2 of
                   Inl err \<Rightarrow> (Inl err, s2)
                 | Inr merchantInfo \<Rightarrow>
                     (case get_prop (resp_data merchantInfo) ''id'' of
                        Inl err \<Rightarrow> (Inl err, s2)
                      | Inr merchantId \<Rightarrow>
                          (let paymentServiceUrl =
                                 or_default (VITE_PAYMENT_SERVICE_URL e) ''http://localhost:8002''
                           in case String_js merchantId of
                                Inl err \<Rightarrow> (Inl err, s2)
                              | Inr idText \<Rightarrow>
                                  (let (r3, s3) =
                                         apiClient_get tr e (''/api/v1/payments/by-merchant/'' @ idText)
                                           \<lparr>opt_apiKey = None, opt_baseURL = Some paymentServiceUrl,
                                            opt_params = []\<rparr> s2
                                   in case r3 of
                                        Inl err \<Rightarrow> (Inl err, s3)
                                      | Inr paymentsResponse \<Rightarrow>
                                          (Inr (Obj [(''merchant'', resp_data merchantInfo),
                                                     (''payments'', resp_data paymentsResponse),
                                                     (''dashboardHtml'', resp_data dashboardResponse)]),
                                           s3))))))"

section \<open>Payment operations\<close>

text \<open>The payment data of a call, an object with these four properties (an omitted one
  reads as \<open>undefined\<close>).\<close>

record paymentData =
  amount :: jsval
  currency :: jsval
  description :: jsval
  payment_method :: jsval

text \<open>The body of the payment request (lines 57-63).\<close>

definition payment_body :: "jsval \<Rightarrow> paymentData \<Rightarrow> js_error + jsval" where
  "payment_body merchantId pd =
     (case String_js (amount pd) of
        Inl err \<Rightarrow> Inl err
      | Inr amountText \<Rightarrow>
          Inr (Obj [(''merchant_id'', merchantId),
                    (''amount'', Str amountText),
                    (''currency'', currency pd),
                    (''description'', description pd),
                    (''payment_method'', js_or (payment_method pd) (Str ''card''))]))"

definition createPayment ::
  "'w transport \<Rightarrow> env \<Rightarrow> jsval \<Rightarrow> paymentData \<Rightarrow> 'w net \<Rightarrow> (js_error + jsval) \<times> 'w net" where
  "createPayment tr e apiKey pd s =
     (let gatewayUrl = or_default (VITE_API_BASE_URL e) ''http://localhost:8000'';
          merchantServiceUrl = or_default (VITE_MERCHANT_SERVICE_URL e) ''http://localhost:8001'';
          (r1, s1) = apiClient_get tr e ''/api/v1/merchants/me''
                       \<lparr>opt_apiKey = Some apiKey, opt_baseURL = Some merchantServiceUrl,
                        opt_params = []\<rparr> s
      in case r1 of
           Inl err \<Rightarrow> (Inl err, s1)
         | Inr merchantResponse \<Rightarrow>
             (case get_prop (resp_data merchantResponse) ''id'' of
                Inl err \<Rightarrow> (Inl err, s1)
              | Inr merchantId \<Rightarrow>
                  (case payment_body merchantId pd of
                     Inl err \<Rightarrow> (Inl err, s1)
                   | Inr body \<Rightarrow>
                       (let (r2, s2) = apiClient_post tr e ''/v1/payments'' body
                                         \<lparr>opt_apiKey = Some apiKey, opt_baseURL = Some gatewayUrl,
                                          opt_params = []\<rparr> s1
                        in case r2 of
                             Inl err \<Rightarrow> (Inl err, s2)
                           | Inr response \<Rightarrow> (Inr (resp_data response), s2)))))"

section \<open>Provider control (the Providers component)\<close>

text \<open>The two fallback messages of \<open>handleProviderChange\<close>, as UTF-8 bytes.\<close>

definition msg_switch_failed :: string where
  "msg_switch_failed = [
      CHR 0xD0, CHR 0x9D, CHR 0xD0, CHR 0xB5, CHR 0x20, CHR 0xD1, CHR 0x83, CHR 0xD0,
      CHR 0xB4, CHR 0xD0, CHR 0xB0, CHR 0xD0, CHR 0xBB, CHR 0xD0, CHR 0xBE, CHR 0xD1,
      CHR 0x81, CHR 0xD1, CHR 0x8C, CHR 0x20, CHR 0xD0, CHR 0xB8, CHR 0xD0, CHR 0xB7,
      CHR 0xD0, CHR 0xBC, CHR 0xD0, CHR 0xB5, CHR 0xD0, CHR 0xBD, CHR 0xD0, CHR 0xB8,
      CHR 0xD1, CHR 0x82, CHR 0xD1, CHR 0x8C, CHR 0x20, CHR 0xD0, CHR 0xBF, CHR 0xD1,
      CHR 0x80, CHR 0xD0, CHR 0xBE, CHR 0xD0, CHR 0xB2, CHR 0xD0, CHR 0xB0, CHR 0xD0,
      CHR 0xB9, CHR 0xD0, CHR 0xB4, CHR 0xD0, CHR 0xB5, CHR 0xD1, CHR 0x80]"

definition msg_switch_error :: string where
  "msg_switch_error = [
      CHR 0xD0, CHR 0x9E, CHR 0xD1, CHR 0x88, CHR 0xD0, CHR 0xB8, CHR 0xD0, CHR 0xB1,
      CHR 0xD0, CHR 0xBA, CHR 0xD0, CHR 0xB0, CHR 0x20, CHR 0xD0, CHR 0xBF, CHR 0xD1,
      CHR 0x80, CHR 0xD0, CHR 0xB8, CHR 0x20, CHR 0xD0, CHR 0xB8, CHR 0xD0, CHR 0xB7,
      CHR 0xD0, CHR 0xBC, CHR 0xD0, CHR 0xB5, CHR 0xD0, CHR 0xBD, CHR 0xD0, CHR 0xB5,
      CHR 0xD0, CHR 0xBD, CHR 0xD0, CHR 0xB8, CHR 0xD0, CHR 0xB8, CHR 0x20, CHR 0xD0,
      CHR 0xBF, CHR 0xD1, CHR 0x80, CHR 0xD0, CHR 0xBE, CHR 0xD0, CHR 0xB2, CHR 0xD0,
      CHR 0xB0, CHR 0xD0, CHR 0xB9, CHR 0xD0, CHR 0xB4, CHR 0xD0, CHR 0xB5, CHR 0xD1,
      CHR 0x80, CHR 0xD0, CHR 0xB0]"

text \<open>\<open>fetch\<close>: a request, and a response of which the code reads \<open>ok\<close> and the decoded
  body (\<open>response.json()\<close> rejects when the body is not JSON). The body of the request is
  the value handed to \<open>JSON.stringify\<close>.\<close>

record fetch_request =
  fetch_url :: string
  fetch_method :: http_method
  fetch_headers :: "(string \<times> string) list"
  fetch_body :: "jsval option"

record fetch_response =
  ok :: bool
  json :: "js_error + jsval"

type_synonym 'w fetcher = "fetch_request \<Rightarrow> 'w \<Rightarrow> (js_error + fetch_response) \<times> 'w"

text \<open>The state of the component.\<close>

record providers_state =
  currentProvider :: jsval
  availableProviders :: jsval
  loading :: bool
  error :: "string option"
  success :: bool

text \<open>\<open>new Error(v)\<close> for a value that is not \<open>undefined\<close>: the message is \<open>ToString v\<close>.\<close>

definition new_Error :: "jsval \<Rightarrow> js_error" where
  "new_Error v = (case ToString v of None \<Rightarrow> TypeError msg_cannot_convert | Some m \<Rightarrow> Error m)"

text \<open>What the \<open>try\<close> block of \<open>handleProviderChange\<close> (lines 36-57) comes to: the new
  provider key, or the value thrown.\<close>

definition provider_change_result :: "js_error + fetch_response \<Rightarrow> js_error + jsval" where
  "provider_change_result r =
     (case r of
        Inl err \<Rightarrow> Inl err
      | Inr response \<Rightarrow>
          if \<not> ok response
          then (case json response of
                  Inl err \<Rightarrow> Inl err
                | Inr errorData \<Rightarrow>
                    (case get_prop errorData ''detail'' of
                       Inl err \<Rightarrow> Inl err
                     | Inr detail \<Rightarrow> Inl (new_Error (js_or detail (Str msg_switch_failed)))))
          else (case json response of
                  Inl err \<Rightarrow> Inl err
                | Inr data \<Rightarrow> get_prop data ''current_provider''))"

text \<open>\<open>handleProviderChange\<close>: the state of the component when the handler has run, the
  delays of the timers it has started, and the world after the request.\<close>

definition handleProviderChange ::
  "'w fetcher \<Rightarrow> env \<Rightarrow> jsval \<Rightarrow> providers_state \<Rightarrow> 'w \<Rightarrow> providers_state \<times> nat list \<times> 'w" where
  "handleProviderChange fetch e providerName st w =
     (let st1 = st\<lparr>loading := True, error := None, success := False\<rparr>;
          paymentServiceUrl = or_default (VITE_PAYMENT_SERVICE_URL e) ''http://localhost:8002'';
          (r, w') = fetch \<lparr>fetch_url = paymentServiceUrl @ ''/api/v1/provider'',
                           fetch_method = PUT,
                           fetch_headers = [(''Content-Type'', ''application/json'')],
                           fetch_body = Some (Obj [(''provider'', providerName)])\<rparr> w
      in case provider_change_result r of
           Inr current_provider \<Rightarrow>
             (st1\<lparr>currentProvider := current_provider, success := True, loading := False\<rparr>,
              [3000], w')
         | Inl err \<Rightarrow>
             (st1\<lparr>error := Some (if err_message err = [] then msg_switch_error
                                  else err_message err),
                  loading := False\<rparr>,
              [], w'))"

section \<open>Properties of the URL rule\<close>

lemma starts_with_scheme_prefix: "starts_with_scheme u \<Longrightarrow> prefix ''http'' u"
  by (auto simp: starts_with_scheme_def prefix_def)

lemma root_relative_no_prefix: "prefix ''/'' u \<Longrightarrow> \<not> prefix ''http'' u"
  by (auto simp: prefix_def)

text \<open>
  C5, as the specification words it, fails: \<open>httpfoo\<close> starts with no scheme, and yet it is
  surfaced unchanged, not behind the gateway address.
\<close>

theorem next_action_url_scheme_counterexample:
  "\<not> starts_with_scheme ''httpfoo''
   \<and> handleSubmit_window_open
       \<lparr>VITE_API_BASE_URL = Some ''http://localhost:8000'', VITE_MERCHANT_SERVICE_URL = None,
      VITE_PAYMENT_SERVICE_URL = None\<rparr>
       (Obj [(''requires_action'', Bool True), (''next_action_url'', Str ''httpfoo'')])
     = Inr (Some ''httpfoo'')
   \<and> handleSubmit_window_open
       \<lparr>VITE_API_BASE_URL = Some ''http://localhost:8000'', VITE_MERCHANT_SERVICE_URL = None,
      VITE_PAYMENT_SERVICE_URL = None\<rparr>
       (Obj [(''requires_action'', Bool True), (''next_action_url'', Str ''httpfoo'')])
     \<noteq> Inr (Some (if starts_with_scheme ''httpfoo'' then ''httpfoo''
                      else ''http://localhost:8000'' @ ''httpfoo''))"
  by (simp add: starts_with_scheme_def handleSubmit_window_open_def fullUrl_def startsWith_def)

text \<open>
  C5, amended. For every next-action URL \<open>u\<close> supplied by the backend and surfaced to the
  operator (the payment requires action and \<open>u\<close> is not empty), the URL of the opened
  window and the target of the rendered link are \<open>u\<close> itself when \<open>u\<close> begins with the text
  \<open>http\<close>, and the gateway address followed by \<open>u\<close> otherwise; the gateway address is the
  configured \<open>VITE_API_BASE_URL\<close> when that is set and not empty, and
  \<open>http://localhost:8000\<close> when it is not. So a URL that starts with \<open>http://\<close> or
  \<open>https://\<close> is unchanged, and a root-relative one is put behind the gateway address.
\<close>

theorem next_action_url_normalized:
  assumes "get_prop result ''requires_action'' = Inr ra" and "truthy ra"
    and "get_prop result ''next_action_url'' = Inr (Str u)" and "u \<noteq> []"
  shows "(\<forall>g. VITE_API_BASE_URL e = Some g \<and> g \<noteq> [] \<longrightarrow>
            handleSubmit_window_open e result
              = Inr (Some (if prefix ''http'' u then u else g @ u))
            \<and> link_href e result = Inr (Some (if prefix ''http'' u then u else g @ u))
            \<and> (starts_with_scheme u \<longrightarrow> handleSubmit_window_open e result = Inr (Some u))
            \<and> (prefix ''/'' u \<longrightarrow> handleSubmit_window_open e result = Inr (Some (g @ u))))
    \<and> (VITE_API_BASE_URL e = None \<or> VITE_API_BASE_URL e = Some [] \<longrightarrow>
            handleSubmit_window_open e result
              = Inr (Some (if prefix ''http'' u then u else ''http://localhost:8000'' @ u))
            \<and> link_href e result
              = Inr (Some (if prefix ''http'' u then u else ''http://localhost:8000'' @ u)))"
  using assms starts_with_scheme_prefix [of u] root_relative_no_prefix [of u]
  by (auto simp add: handleSubmit_window_open_def link_href_def fullUrl_def startsWith_def)

text \<open>The two examples of the specification, a relative URL behind the gateway configured at
  \<open>http://localhost:8000\<close> and an absolute URL, and a gateway configured elsewhere.\<close>

theorem next_action_url_normalized_witness:
  "handleSubmit_window_open
     \<lparr>VITE_API_BASE_URL = Some ''http://localhost:8000'', VITE_MERCHANT_SERVICE_URL = None,
      VITE_PAYMENT_SERVICE_URL = None\<rparr>
     (Obj [(''requires_action'', Bool True), (''next_action_url'', Str ''/mock-3ds?token=abc'')])
   = Inr (Some ''http://localhost:8000/mock-3ds?token=abc'')
   \<and> link_href
     \<lparr>VITE_API_BASE_URL = Some ''http://localhost:8000'', VITE_MERCHANT_SERVICE_URL = None,
      VITE_PAYMENT_SERVICE_URL = None\<rparr>
     (Obj [(''requires_action'', Bool True), (''next_action_url'', Str ''https://ext.example/x'')])
   = Inr (Some ''https://ext.example/x'')
   \<and> link_href
     \<lparr>VITE_API_BASE_URL = Some ''https://pay.example'', VITE_MERCHANT_SERVICE_URL = None,
      VITE_PAYMENT_SERVICE_URL = None\<rparr>
     (Obj [(''requires_action'', Bool True), (''next_action_url'', Str ''/mock-3ds?token=abc'')])
   = Inr (Some ''https://pay.example/mock-3ds?token=abc'')"
  using next_action_url_normalized
      [of "Obj [(''requires_action'', Bool True), (''next_action_url'', Str ''/mock-3ds?token=abc'')]"
        "Bool True" "''/mock-3ds?token=abc''"
        "\<lparr>VITE_API_BASE_URL = Some ''http://localhost:8000'', VITE_MERCHANT_SERVICE_URL = None,
      VITE_PAYMENT_SERVICE_URL = None\<rparr>"]
    next_action_url_normalized
      [of "Obj [(''requires_action'', Bool True), (''next_action_url'', Str ''https://ext.example/x'')]"
        "Bool True" "''https://ext.example/x''"
        "\<lparr>VITE_API_BASE_URL = Some ''http://localhost:8000'', VITE_MERCHANT_SERVICE_URL = None,
      VITE_PAYMENT_SERVICE_URL = None\<rparr>"]
    next_action_url_normalized
      [of "Obj [(''requires_action'', Bool True), (''next_action_url'', Str ''/mock-3ds?token=abc'')]"
        "Bool True" "''/mock-3ds?token=abc''"
        "\<lparr>VITE_API_BASE_URL = Some ''https://pay.example'', VITE_MERCHANT_SERVICE_URL = None,
      VITE_PAYMENT_SERVICE_URL = None\<rparr>"]
  by simp



section \<open>Properties of the transport client\<close>

text \<open>
  C8. A call configuration that carries a credential in its \<open>apiKey\<close> field (the field holds
  a truthy value, which is what the interceptor tests) leaves the request interceptor with
  the header \<open>X-API-Key\<close> set to that credential and without the field, nothing else
  changed, and that is the configuration issued; a configuration without the field passes
  through unchanged.
\<close>

theorem interceptor_moves_credential:
  "(cfg_apiKey c = Some k \<and> truthy k \<longrightarrow>
      request_interceptor c
        = c\<lparr>cfg_headers := AList.update ''X-API-Key'' k (cfg_headers c), cfg_apiKey := None\<rparr>
      \<and> map_of (cfg_headers (request_interceptor c)) ''X-API-Key'' = Some k
      \<and> cfg_apiKey (request_interceptor c) = None
      \<and> fst (last (sent (snd (dispatch tr c s)))) = request_interceptor c)
   \<and> (cfg_apiKey c = None \<longrightarrow> request_interceptor c = c)"
  by (simp add: request_interceptor_def update_conv' dispatch_def Let_def split: prod.split)

theorem interceptor_moves_credential_witness:
  "request_interceptor
     \<lparr>cfg_method = GET, cfg_url = ''/api/v1/merchants/me'', cfg_baseURL = ''http://localhost:8001'',
      cfg_headers = [(''Content-Type'', Str ''application/json'')], cfg_data = None,
      cfg_params = [], cfg_apiKey = Some (Str ''sk_test_1'')\<rparr>
   = \<lparr>cfg_method = GET, cfg_url = ''/api/v1/merchants/me'', cfg_baseURL = ''http://localhost:8001'',
      cfg_headers = [(''Content-Type'', Str ''application/json''), (''X-API-Key'', Str ''sk_test_1'')],
      cfg_data = None, cfg_params = [], cfg_apiKey = None\<rparr>
   \<and> request_interceptor
     \<lparr>cfg_method = GET, cfg_url = ''/api/v1/merchants/all'', cfg_baseURL = ''http://localhost:8001'',
      cfg_headers = [(''Content-Type'', Str ''application/json'')], cfg_data = None,
      cfg_params = [], cfg_apiKey = None\<rparr>
   = \<lparr>cfg_method = GET, cfg_url = ''/api/v1/merchants/all'', cfg_baseURL = ''http://localhost:8001'',
      cfg_headers = [(''Content-Type'', Str ''application/json'')], cfg_data = None,
      cfg_params = [], cfg_apiKey = None\<rparr>"
  using interceptor_moves_credential
      [of "\<lparr>cfg_method = GET, cfg_url = ''/api/v1/merchants/me'', cfg_baseURL = ''http://localhost:8001'',
      cfg_headers = [(''Content-Type'', Str ''application/json'')], cfg_data = None,
      cfg_params = [], cfg_apiKey = Some (Str ''sk_test_1'')\<rparr>" "Str ''sk_test_1''"
        "\<lambda>c w. (Inl (Error []), w)" "\<lparr>backend = (), sent = []\<rparr>"]
    interceptor_moves_credential
      [of "\<lparr>cfg_method = GET, cfg_url = ''/api/v1/merchants/all'', cfg_baseURL = ''http://localhost:8001'',
      cfg_headers = [(''Content-Type'', Str ''application/json'')], cfg_data = None,
      cfg_params = [], cfg_apiKey = None\<rparr>" "Null"
        "\<lambda>c w. (Inl (Error []), w)" "\<lparr>backend = (), sent = []\<rparr>"]
  by simp

section \<open>Properties of the payment body\<close>


























section \<open>Properties of the merchant operations\<close>

lemma dispatch_eq:
  "dispatch tr c s =
     (fst (tr (request_interceptor c) (backend s)),
      \<lparr>backend = snd (tr (request_interceptor c) (backend s)),
       sent = sent s @ [(request_interceptor c, fst (tr (request_interceptor c) (backend s)))]\<rparr>)"
  by (simp add: dispatch_def Let_def split: prod.split)

lemma interceptor_no_key: "cfg_apiKey c = None \<Longrightarrow> request_interceptor c = c"
  by (simp add: request_interceptor_def)

text \<open>
  C4. \<open>createMerchant\<close> repeats the creation call, the same request, once, and only when the
  first attempt failed with status 404 or with the code \<open>ECONNREFUSED\<close>; any other
  failure of the first attempt is the result, with no second request. So an invocation
  issues at most two requests, and at most one of them succeeds.
\<close>

theorem createMerchant_single_retry:
  fixes tr :: "'w transport"
  defines "req e n \<equiv>
     \<lparr>cfg_method = POST, cfg_url = ''/api/v1/merchants'',
      cfg_baseURL = or_default (VITE_MERCHANT_SERVICE_URL e) ''http://localhost:8001'',
      cfg_headers = [(''Content-Type'', Str ''application/json'')],
      cfg_data = Some (if typeof n = ''string'' then Obj [(''name'', n)] else n),
      cfg_params = [], cfg_apiKey = None\<rparr>"
  assumes run: "createMerchant tr e nameOrData s = (r, s')"
  shows "(\<exists>o1 rest. issued s s' = (req e nameOrData, o1) # rest \<and>
            (case o1 of
               Inr response \<Rightarrow> rest = [] \<and> r = Inr (resp_data response)
             | Inl err \<Rightarrow>
                 if (\<exists>resp. err_response err = Some resp \<and> resp_status resp = 404)
                    \<or> err_code err = Some ''ECONNREFUSED''
                 then \<exists>o2. rest = [(req e nameOrData, o2)] \<and>
                        r = (case o2 of Inl err2 \<Rightarrow> Inl err2
                                      | Inr response \<Rightarrow> Inr (resp_data response))
                 else rest = [] \<and> r = Inl err))
       \<and> length (issued s s') \<le> 2
       \<and> length (filter (\<lambda>(c, out). \<not> isl out) (issued s s')) \<le> 1"
proof -
  let ?c = "apiClient_config e POST ''/api/v1/merchants''
              (Some (if typeof nameOrData = ''string'' then Obj [(''name'', nameOrData)] else nameOrData))
              \<lparr>opt_apiKey = None,
               opt_baseURL = Some (or_default (VITE_MERCHANT_SERVICE_URL e) ''http://localhost:8001''),
               opt_params = []\<rparr>"
  have c: "request_interceptor ?c = req e nameOrData"
    by (simp add: interceptor_no_key apiClient_config_def req_def)
  obtain o1 w1 where t1: "tr (req e nameOrData) (backend s) = (o1, w1)"
    by (cases "tr (req e nameOrData) (backend s)")
  obtain o2 w2 where t2: "tr (req e nameOrData) w1 = (o2, w2)"
    by (cases "tr (req e nameOrData) w1")
  let ?s1 = "\<lparr>backend = w1, sent = sent s @ [(req e nameOrData, o1)]\<rparr>"
  let ?s2 = "\<lparr>backend = w2, sent = sent s @ [(req e nameOrData, o1), (req e nameOrData, o2)]\<rparr>"
  have d1: "apiClient_post tr e ''/api/v1/merchants''
              (if typeof nameOrData = ''string'' then Obj [(''name'', nameOrData)] else nameOrData)
              \<lparr>opt_apiKey = None,
               opt_baseURL = Some (or_default (VITE_MERCHANT_SERVICE_URL e) ''http://localhost:8001''),
               opt_params = []\<rparr> s = (o1, ?s1)"
    by (simp add: apiClient_post_def dispatch_eq c t1)
  have d2: "apiClient_post tr e ''/api/v1/merchants''
              (if typeof nameOrData = ''string'' then Obj [(''name'', nameOrData)] else nameOrData)
              \<lparr>opt_apiKey = None,
               opt_baseURL = Some (or_default (VITE_MERCHANT_SERVICE_URL e) ''http://localhost:8001''),
               opt_params = []\<rparr> ?s1 = (o2, ?s2)"
    by (simp add: apiClient_post_def dispatch_eq c t2)
  have retry_iff: "(map_option resp_status (err_response err) = Some 404)
      = (\<exists>resp. err_response err = Some resp \<and> resp_status resp = 404)" for err
    by (cases "err_response err") auto
  show ?thesis
  proof (cases o1)
    case (Inr response)
    with run d1 have "r = Inr (resp_data response)" "s' = ?s1"
      by (simp_all add: createMerchant_def Let_def)
    then show ?thesis using Inr by (simp add: issued_def)
  next
    case (Inl err)
    show ?thesis
    proof (cases "(\<exists>resp. err_response err = Some resp \<and> resp_status resp = 404)
                    \<or> err_code err = Some ''ECONNREFUSED''")
      case True
      with run d1 d2 Inl have "r = (case o2 of Inl err2 \<Rightarrow> Inl err2
                                      | Inr response \<Rightarrow> Inr (resp_data response))" "s' = ?s2"
        by (auto simp add: createMerchant_def Let_def retry_iff split: sum.splits)
      then show ?thesis using Inl True by (simp add: issued_def)
    next
      case False
      with run d1 Inl have "r = Inl err" "s' = ?s1"
        by (auto simp add: createMerchant_def Let_def retry_iff)
      then show ?thesis using Inl False by (simp add: issued_def)
    qed
  qed
qed


theorem createMerchant_single_retry_witness:
  "createMerchant
     (\<lambda>c w. (if w = (0::nat)
               then Inl (AxiosError (Some \<lparr>resp_status = 404, resp_data = Null\<rparr>)
                          (Some ''ERR_BAD_REQUEST'') ''Request failed with status code 404'')
               else Inr \<lparr>resp_status = 201, resp_data = Obj [(''id'', Str ''m-1'')]\<rparr>, Suc w))
     \<lparr>VITE_API_BASE_URL = None, VITE_MERCHANT_SERVICE_URL = None, VITE_PAYMENT_SERVICE_URL = None\<rparr>
     (Str ''Demo Shop'') \<lparr>backend = 0, sent = []\<rparr>
   = (Inr (Obj [(''id'', Str ''m-1'')]),
      \<lparr>backend = 2,
       sent = [(\<lparr>cfg_method = POST, cfg_url = ''/api/v1/merchants'',
                 cfg_baseURL = ''http://localhost:8001'',
                 cfg_headers = [(''Content-Type'', Str ''application/json'')],
                 cfg_data = Some (Obj [(''name'', Str ''Demo Shop'')]),
                 cfg_params = [], cfg_apiKey = None\<rparr>,
                Inl (AxiosError (Some \<lparr>resp_status = 404, resp_data = Null\<rparr>)
                          (Some ''ERR_BAD_REQUEST'') ''Request failed with status code 404'')),
               (\<lparr>cfg_method = POST, cfg_url = ''/api/v1/merchants'',
                 cfg_baseURL = ''http://localhost:8001'',
                 cfg_headers = [(''Content-Type'', Str ''application/json'')],
                 cfg_data = Some (Obj [(''name'', Str ''Demo Shop'')]),
                 cfg_params = [], cfg_apiKey = None\<rparr>,
                Inr \<lparr>resp_status = 201, resp_data = Obj [(''id'', Str ''m-1'')]\<rparr>)]\<rparr>)
   \<and> createMerchant
     (\<lambda>c w. (Inl (AxiosError (Some \<lparr>resp_status = 500, resp_data = Null\<rparr>)
                          (Some ''ERR_BAD_RESPONSE'') ''Request failed with status code 500''), Suc w))
     \<lparr>VITE_API_BASE_URL = None, VITE_MERCHANT_SERVICE_URL = None, VITE_PAYMENT_SERVICE_URL = None\<rparr>
     (Str ''Demo Shop'') \<lparr>backend = 0, sent = []\<rparr>
   = (Inl (AxiosError (Some \<lparr>resp_status = 500, resp_data = Null\<rparr>)
                          (Some ''ERR_BAD_RESPONSE'') ''Request failed with status code 500''),
      \<lparr>backend = 1,
       sent = [(\<lparr>cfg_method = POST, cfg_url = ''/api/v1/merchants'',
                 cfg_baseURL = ''http://localhost:8001'',
                 cfg_headers = [(''Content-Type'', Str ''application/json'')],
                 cfg_data = Some (Obj [(''name'', Str ''Demo Shop'')]),
                 cfg_params = [], cfg_apiKey = None\<rparr>,
                Inl (AxiosError (Some \<lparr>resp_status = 500, resp_data = Null\<rparr>)
                          (Some ''ERR_BAD_RESPONSE'') ''Request failed with status code 500''))]\<rparr>)"
proof -
  let ?e = "\<lparr>VITE_API_BASE_URL = None, VITE_MERCHANT_SERVICE_URL = None, VITE_PAYMENT_SERVICE_URL = None\<rparr>"
  let ?s = "\<lparr>backend = 0::nat, sent = []\<rparr>"
  let ?t1 = "\<lambda>(c::config) w. (if w = (0::nat)
               then Inl (AxiosError (Some \<lparr>resp_status = 404, resp_data = Null\<rparr>)
                          (Some ''ERR_BAD_REQUEST'') ''Request failed with status code 404'')
               else Inr \<lparr>resp_status = 201, resp_data = Obj [(''id'', Str ''m-1'')]\<rparr>, Suc w)"
  let ?t2 = "\<lambda>(c::config) (w::nat). (Inl (AxiosError (Some \<lparr>resp_status = 500, resp_data = Null\<rparr>)
                          (Some ''ERR_BAD_RESPONSE'') ''Request failed with status code 500'') :: outcome, Suc w)"
  have run1: "createMerchant ?t1 ?e (Str ''Demo Shop'') ?s
      = (fst (createMerchant ?t1 ?e (Str ''Demo Shop'') ?s), snd (createMerchant ?t1 ?e (Str ''Demo Shop'') ?s))"
    by simp
  have run2: "createMerchant ?t2 ?e (Str ''Demo Shop'') ?s
      = (fst (createMerchant ?t2 ?e (Str ''Demo Shop'') ?s), snd (createMerchant ?t2 ?e (Str ''Demo Shop'') ?s))"
    by simp
  note a = createMerchant_single_retry [OF run1]
  note b = createMerchant_single_retry [OF run2]
  show ?thesis
    using a b
    by (simp add: createMerchant_def apiClient_post_def dispatch_def apiClient_config_def
        request_interceptor_def Let_def)
qed

text \<open>
  C1, at the default configuration, with a gateway at \<open>http://localhost:8000\<close> that is
  reachable and creates the merchant, and a merchant service at \<open>http://localhost:8001\<close>
  that refuses connections: both attempts go to the merchant service, the gateway is never
  asked, and the creation fails.
\<close>

theorem createMerchant_bypasses_gateway:
  "API_BASE_URL
     \<lparr>VITE_API_BASE_URL = None, VITE_MERCHANT_SERVICE_URL = None, VITE_PAYMENT_SERVICE_URL = None\<rparr>
   = ''http://localhost:8000''
   \<and> fst (createMerchant
     (\<lambda>c w. (if cfg_baseURL c = ''http://localhost:8000''
               then Inr \<lparr>resp_status = 201, resp_data = Obj [(''id'', Str ''m-1'')]\<rparr>
               else Inl (AxiosError None (Some ''ECONNREFUSED'') ''connect ECONNREFUSED''), w))
     \<lparr>VITE_API_BASE_URL = None, VITE_MERCHANT_SERVICE_URL = None, VITE_PAYMENT_SERVICE_URL = None\<rparr>
     (Str ''Demo Shop'') \<lparr>backend = (), sent = []\<rparr>)
   = Inl (AxiosError None (Some ''ECONNREFUSED'') ''connect ECONNREFUSED'')
   \<and> map (\<lambda>(c, out). cfg_baseURL c) (sent (snd (createMerchant
     (\<lambda>c w. (if cfg_baseURL c = ''http://localhost:8000''
               then Inr \<lparr>resp_status = 201, resp_data = Obj [(''id'', Str ''m-1'')]\<rparr>
               else Inl (AxiosError None (Some ''ECONNREFUSED'') ''connect ECONNREFUSED''), w))
     \<lparr>VITE_API_BASE_URL = None, VITE_MERCHANT_SERVICE_URL = None, VITE_PAYMENT_SERVICE_URL = None\<rparr>
     (Str ''Demo Shop'') \<lparr>backend = (), sent = []\<rparr>)))
   = [''http://localhost:8001'', ''http://localhost:8001'']"
  by (simp add: API_BASE_URL_def createMerchant_def apiClient_post_def dispatch_def apiClient_config_def
        request_interceptor_def Let_def)

text \<open>The runs of \<open>getDashboard\<close>, by the step that ends them.\<close>

lemma apiClient_get_eq:
  "apiClient_get tr e url opts s =
     (let c = request_interceptor (apiClient_config e GET url None opts)
      in (fst (tr c (backend s)),
          \<lparr>backend = snd (tr c (backend s)), sent = sent s @ [(c, fst (tr c (backend s)))]\<rparr>))"
  by (simp add: apiClient_get_def dispatch_eq Let_def)

lemma getDashboard_run:
  fixes tr :: "'w transport"
  defines "ca e k \<equiv> request_interceptor
     \<lparr>cfg_method = GET, cfg_url = ''/api/v1/dashboard'',
      cfg_baseURL = or_default (VITE_MERCHANT_SERVICE_URL e) ''http://localhost:8001'',
      cfg_headers = [(''Content-Type'', Str ''application/json'')],
      cfg_data = None, cfg_params = [], cfg_apiKey = Some k\<rparr>"
    and "cb e k \<equiv> request_interceptor
     \<lparr>cfg_method = GET, cfg_url = ''/api/v1/merchants/me'',
      cfg_baseURL = or_default (VITE_MERCHANT_SERVICE_URL e) ''http://localhost:8001'',
      cfg_headers = [(''Content-Type'', Str ''application/json'')],
      cfg_data = None, cfg_params = [], cfg_apiKey = Some k\<rparr>"
    and "cc e idText \<equiv>
     \<lparr>cfg_method = GET, cfg_url = ''/api/v1/payments/by-merchant/'' @ idText,
      cfg_baseURL = or_default (VITE_PAYMENT_SERVICE_URL e) ''http://localhost:8002'',
      cfg_headers = [(''Content-Type'', Str ''application/json'')],
      cfg_data = None, cfg_params = [], cfg_apiKey = None\<rparr>"
  assumes run: "getDashboard tr e apiKey s = (r, s')"
  shows "(\<exists>err. issued s s' = [(ca e apiKey, Inl err)] \<and> r = Inl err)
    \<or> (\<exists>d err. issued s s' = [(ca e apiKey, Inr d), (cb e apiKey, Inl err)] \<and> r = Inl err)
    \<or> (\<exists>d m err. issued s s' = [(ca e apiKey, Inr d), (cb e apiKey, Inr m)] \<and> r = Inl err
          \<and> (get_prop (resp_data m) ''id'' = Inl err
               \<or> (\<exists>mid. get_prop (resp_data m) ''id'' = Inr mid \<and> String_js mid = Inl err)))
    \<or> (\<exists>d m mid idText err.
          issued s s' = [(ca e apiKey, Inr d), (cb e apiKey, Inr m), (cc e idText, Inl err)]
          \<and> get_prop (resp_data m) ''id'' = Inr mid \<and> String_js mid = Inr idText \<and> r = Inl err)
    \<or> (\<exists>d m mid idText p.
          issued s s' = [(ca e apiKey, Inr d), (cb e apiKey, Inr m), (cc e idText, Inr p)]
          \<and> get_prop (resp_data m) ''id'' = Inr mid \<and> String_js mid = Inr idText
          \<and> r = Inr (Obj [(''merchant'', resp_data m), (''payments'', resp_data p),
                           (''dashboardHtml'', resp_data d)]))"
proof -
  have cc': "request_interceptor (apiClient_config e GET (''/api/v1/payments/by-merchant/'' @ t) None
          \<lparr>opt_apiKey = None,
           opt_baseURL = Some (or_default (VITE_PAYMENT_SERVICE_URL e) ''http://localhost:8002''),
           opt_params = []\<rparr>) = cc e t" for t
    by (simp add: interceptor_no_key apiClient_config_def cc_def)
  have ca': "request_interceptor (apiClient_config e GET ''/api/v1/dashboard'' None
          \<lparr>opt_apiKey = Some apiKey,
           opt_baseURL = Some (or_default (VITE_MERCHANT_SERVICE_URL e) ''http://localhost:8001''),
           opt_params = []\<rparr>) = ca e apiKey"
    by (simp add: apiClient_config_def ca_def)
  have cb': "request_interceptor (apiClient_config e GET ''/api/v1/merchants/me'' None
          \<lparr>opt_apiKey = Some apiKey,
           opt_baseURL = Some (or_default (VITE_MERCHANT_SERVICE_URL e) ''http://localhost:8001''),
           opt_params = []\<rparr>) = cb e apiKey"
    by (simp add: apiClient_config_def cb_def)
  show ?thesis
    using run
    unfolding getDashboard_def apiClient_get_eq ca' cb' cc' Let_def
    by (auto simp: issued_def split: sum.splits prod.splits) metis
qed

text \<open>
  C2. When a call of \<open>getDashboard\<close> fails, the operation fails with the error of that call,
  unchanged, and returns no dashboard; in particular when the dashboard payload and the
  merchant were fetched and the listing of the payments fails, the caller receives the
  error of the listing.
\<close>

theorem getDashboard_propagates_failure:
  assumes run: "getDashboard tr e apiKey s = (r, s')"
  shows "(\<forall>c err. (c, Inl err) \<in> set (issued s s') \<longrightarrow> r = Inl err)
    \<and> (\<forall>c1 d c2 m c3 err.
          issued s s' = [(c1, Inr d), (c2, Inr m), (c3, Inl err)] \<longrightarrow> r = Inl err)"
  using getDashboard_run [OF run] by auto

theorem getDashboard_propagates_failure_witness:
  "fst (getDashboard
     (\<lambda>c w. (if prefix ''/api/v1/payments'' (cfg_url c)
               then Inl (AxiosError (Some \<lparr>resp_status = 500, resp_data = Obj [(''detail'', Str ''down'')]\<rparr>)
                           (Some ''ERR_BAD_RESPONSE'') ''Request failed with status code 500'')
               else Inr \<lparr>resp_status = 200, resp_data = Obj [(''id'', Str ''m-1'')]\<rparr>, w))
     \<lparr>VITE_API_BASE_URL = None, VITE_MERCHANT_SERVICE_URL = None, VITE_PAYMENT_SERVICE_URL = None\<rparr> (Str ''sk_test_1'') \<lparr>backend = (), sent = []\<rparr>)
   = Inl (AxiosError (Some \<lparr>resp_status = 500, resp_data = Obj [(''detail'', Str ''down'')]\<rparr>)
            (Some ''ERR_BAD_RESPONSE'') ''Request failed with status code 500'')
   \<and> map (\<lambda>(c, out). (cfg_url c, isl out)) (sent (snd (getDashboard
     (\<lambda>c w. (if prefix ''/api/v1/payments'' (cfg_url c)
               then Inl (AxiosError (Some \<lparr>resp_status = 500, resp_data = Obj [(''detail'', Str ''down'')]\<rparr>)
                           (Some ''ERR_BAD_RESPONSE'') ''Request failed with status code 500'')
               else Inr \<lparr>resp_status = 200, resp_data = Obj [(''id'', Str ''m-1'')]\<rparr>, w))
     \<lparr>VITE_API_BASE_URL = None, VITE_MERCHANT_SERVICE_URL = None, VITE_PAYMENT_SERVICE_URL = None\<rparr> (Str ''sk_test_1'') \<lparr>backend = (), sent = []\<rparr>)))
   = [(''/api/v1/dashboard'', False), (''/api/v1/merchants/me'', False),
      (''/api/v1/payments/by-merchant/m-1'', True)]"
proof -
  let ?t = "\<lambda>(c::config) (w::unit). (if prefix ''/api/v1/payments'' (cfg_url c)
               then Inl (AxiosError (Some \<lparr>resp_status = 500, resp_data = Obj [(''detail'', Str ''down'')]\<rparr>)
                           (Some ''ERR_BAD_RESPONSE'') ''Request failed with status code 500'')
               else Inr \<lparr>resp_status = 200, resp_data = Obj [(''id'', Str ''m-1'')]\<rparr>, w)"
  let ?g = "getDashboard ?t \<lparr>VITE_API_BASE_URL = None, VITE_MERCHANT_SERVICE_URL = None, VITE_PAYMENT_SERVICE_URL = None\<rparr> (Str ''sk_test_1'') \<lparr>backend = (), sent = []\<rparr>"
  have run: "?g = (fst ?g, snd ?g)" by simp
  show ?thesis
    using getDashboard_propagates_failure [OF run]
    by (simp add: getDashboard_def apiClient_get_def dispatch_def apiClient_config_def
        request_interceptor_def String_js_def Let_def)
qed

lemma getDashboard_progress:
  fixes tr :: "'w transport"
  defines "ca e k \<equiv> request_interceptor
     \<lparr>cfg_method = GET, cfg_url = ''/api/v1/dashboard'',
      cfg_baseURL = or_default (VITE_MERCHANT_SERVICE_URL e) ''http://localhost:8001'',
      cfg_headers = [(''Content-Type'', Str ''application/json'')],
      cfg_data = None, cfg_params = [], cfg_apiKey = Some k\<rparr>"
    and "cb e k \<equiv> request_interceptor
     \<lparr>cfg_method = GET, cfg_url = ''/api/v1/merchants/me'',
      cfg_baseURL = or_default (VITE_MERCHANT_SERVICE_URL e) ''http://localhost:8001'',
      cfg_headers = [(''Content-Type'', Str ''application/json'')],
      cfg_data = None, cfg_params = [], cfg_apiKey = Some k\<rparr>"
    and "cc e idText \<equiv>
     \<lparr>cfg_method = GET, cfg_url = ''/api/v1/payments/by-merchant/'' @ idText,
      cfg_baseURL = or_default (VITE_PAYMENT_SERVICE_URL e) ''http://localhost:8002'',
      cfg_headers = [(''Content-Type'', Str ''application/json'')],
      cfg_data = None, cfg_params = [], cfg_apiKey = None\<rparr>"
  assumes run: "getDashboard tr e apiKey s = (r, s')"
  shows "(\<forall>d w1. tr (ca e apiKey) (backend s) = (Inr d, w1) \<longrightarrow>
            (\<exists>rest. issued s s'
               = (ca e apiKey, Inr d) # (cb e apiKey, fst (tr (cb e apiKey) w1)) # rest))
    \<and> (\<forall>d w1 m w2 mid idText.
          tr (ca e apiKey) (backend s) = (Inr d, w1) \<and> tr (cb e apiKey) w1 = (Inr m, w2)
          \<and> get_prop (resp_data m) ''id'' = Inr mid \<and> String_js mid = Inr idText
          \<longrightarrow> issued s s' = [(ca e apiKey, Inr d), (cb e apiKey, Inr m),
                              (cc e idText, fst (tr (cc e idText) w2))]
              \<and> backend s' = snd (tr (cc e idText) w2)
              \<and> r = (case fst (tr (cc e idText) w2) of
                          Inl err \<Rightarrow> Inl err
                        | Inr p \<Rightarrow> Inr (Obj [(''merchant'', resp_data m),
                                              (''payments'', resp_data p),
                                              (''dashboardHtml'', resp_data d)])))"
proof -
  have cc': "request_interceptor (apiClient_config e GET (''/api/v1/payments/by-merchant/'' @ t) None
          \<lparr>opt_apiKey = None,
           opt_baseURL = Some (or_default (VITE_PAYMENT_SERVICE_URL e) ''http://localhost:8002''),
           opt_params = []\<rparr>) = cc e t" for t
    by (simp add: interceptor_no_key apiClient_config_def cc_def)
  have ca': "request_interceptor (apiClient_config e GET ''/api/v1/dashboard'' None
          \<lparr>opt_apiKey = Some apiKey,
           opt_baseURL = Some (or_default (VITE_MERCHANT_SERVICE_URL e) ''http://localhost:8001''),
           opt_params = []\<rparr>) = ca e apiKey"
    by (simp add: apiClient_config_def ca_def)
  have cb': "request_interceptor (apiClient_config e GET ''/api/v1/merchants/me'' None
          \<lparr>opt_apiKey = Some apiKey,
           opt_baseURL = Some (or_default (VITE_MERCHANT_SERVICE_URL e) ''http://localhost:8001''),
           opt_params = []\<rparr>) = cb e apiKey"
    by (simp add: apiClient_config_def cb_def)
  show ?thesis
    using run
    unfolding getDashboard_def apiClient_get_eq ca' cb' cc' Let_def
    by (auto simp: issued_def split: sum.splits prod.splits)
qed

text \<open>
  C3. \<open>getDashboard\<close> issues its calls in one order: the dashboard payload with the
  credential, then the merchant of the same credential, then the payments under the path
  of the \<open>id\<close> read from the merchant. Each call is issued as soon as the one before it has
  succeeded (the third, when the \<open>id\<close> has a string conversion), no other call is issued,
  and when the three have succeeded the result is that merchant, those payments and that
  payload; a successful run has issued exactly these three.
\<close>

theorem getDashboard_three_calls:
  fixes tr :: "'w transport"
  defines "ca e k \<equiv> request_interceptor
     \<lparr>cfg_method = GET, cfg_url = ''/api/v1/dashboard'',
      cfg_baseURL = or_default (VITE_MERCHANT_SERVICE_URL e) ''http://localhost:8001'',
      cfg_headers = [(''Content-Type'', Str ''application/json'')],
      cfg_data = None, cfg_params = [], cfg_apiKey = Some k\<rparr>"
    and "cb e k \<equiv> request_interceptor
     \<lparr>cfg_method = GET, cfg_url = ''/api/v1/merchants/me'',
      cfg_baseURL = or_default (VITE_MERCHANT_SERVICE_URL e) ''http://localhost:8001'',
      cfg_headers = [(''Content-Type'', Str ''application/json'')],
      cfg_data = None, cfg_params = [], cfg_apiKey = Some k\<rparr>"
    and "cc e idText \<equiv>
     \<lparr>cfg_method = GET, cfg_url = ''/api/v1/payments/by-merchant/'' @ idText,
      cfg_baseURL = or_default (VITE_PAYMENT_SERVICE_URL e) ''http://localhost:8002'',
      cfg_headers = [(''Content-Type'', Str ''application/json'')],
      cfg_data = None, cfg_params = [], cfg_apiKey = None\<rparr>"
  assumes run: "getDashboard tr e apiKey s = (r, s')"
  shows "(map fst (issued s s') = [ca e apiKey]
          \<or> map fst (issued s s') = [ca e apiKey, cb e apiKey]
          \<or> (\<exists>d m o3 mid idText.
                issued s s' = [(ca e apiKey, Inr d), (cb e apiKey, Inr m), (cc e idText, o3)]
                \<and> get_prop (resp_data m) ''id'' = Inr mid \<and> String_js mid = Inr idText))
    \<and> (\<forall>v. r = Inr v \<longrightarrow>
          (\<exists>d m p mid idText.
             issued s s' = [(ca e apiKey, Inr d), (cb e apiKey, Inr m), (cc e idText, Inr p)]
             \<and> get_prop (resp_data m) ''id'' = Inr mid \<and> String_js mid = Inr idText
             \<and> v = Obj [(''merchant'', resp_data m), (''payments'', resp_data p),
                          (''dashboardHtml'', resp_data d)]))
    \<and> (\<forall>d w1. tr (ca e apiKey) (backend s) = (Inr d, w1) \<longrightarrow>
          (\<exists>rest. issued s s'
             = (ca e apiKey, Inr d) # (cb e apiKey, fst (tr (cb e apiKey) w1)) # rest))
    \<and> (\<forall>d w1 m w2 mid idText.
          tr (ca e apiKey) (backend s) = (Inr d, w1) \<and> tr (cb e apiKey) w1 = (Inr m, w2)
          \<and> get_prop (resp_data m) ''id'' = Inr mid \<and> String_js mid = Inr idText
          \<longrightarrow> issued s s' = [(ca e apiKey, Inr d), (cb e apiKey, Inr m),
                              (cc e idText, fst (tr (cc e idText) w2))]
              \<and> backend s' = snd (tr (cc e idText) w2)
              \<and> r = (case fst (tr (cc e idText) w2) of
                          Inl err \<Rightarrow> Inl err
                        | Inr p \<Rightarrow> Inr (Obj [(''merchant'', resp_data m),
                                              (''payments'', resp_data p),
                                              (''dashboardHtml'', resp_data d)])))
    \<and> (\<forall>t. String_js (Str t) = Inr t)
    \<and> String_js (Num (Int_num 7)) = Inr ''7''"
proof -
  have order: "(map fst (issued s s') = [ca e apiKey]
          \<or> map fst (issued s s') = [ca e apiKey, cb e apiKey]
          \<or> (\<exists>d m o3 mid idText.
                issued s s' = [(ca e apiKey, Inr d), (cb e apiKey, Inr m), (cc e idText, o3)]
                \<and> get_prop (resp_data m) ''id'' = Inr mid \<and> String_js mid = Inr idText))
    \<and> (\<forall>v. r = Inr v \<longrightarrow>
          (\<exists>d m p mid idText.
             issued s s' = [(ca e apiKey, Inr d), (cb e apiKey, Inr m), (cc e idText, Inr p)]
             \<and> get_prop (resp_data m) ''id'' = Inr mid \<and> String_js mid = Inr idText
             \<and> v = Obj [(''merchant'', resp_data m), (''payments'', resp_data p),
                          (''dashboardHtml'', resp_data d)]))"
    using getDashboard_run [OF run] unfolding ca_def cb_def cc_def
    by (elim disjE exE conjE) simp_all
  have seven: "String_js (Num (Int_num 7)) = Inr ''7''"
    unfolding String_js_def by code_simp
  have strings: "\<forall>t. String_js (Str t) = Inr t"
    by (simp add: String_js_def)
  show ?thesis
    unfolding ca_def cb_def cc_def
    using order [unfolded ca_def cb_def cc_def] getDashboard_progress [OF run] strings seven
    by (elim conjE, intro conjI) assumption+
qed

theorem getDashboard_three_calls_witness:
  "getDashboard
     (\<lambda>c w. (Inr \<lparr>resp_status = 200,
                    resp_data =
                      (if cfg_url c = ''/api/v1/dashboard'' then Str ''<h1>Demo Shop</h1>''
                       else if cfg_url c = ''/api/v1/merchants/me''
                       then Obj [(''id'', Str ''m-1''), (''name'', Str ''Demo Shop'')]
                       else Arr [Obj [(''payment_id'', Str ''p-1'')]])\<rparr>, Suc w))
     \<lparr>VITE_API_BASE_URL = None, VITE_MERCHANT_SERVICE_URL = None, VITE_PAYMENT_SERVICE_URL = None\<rparr> (Str ''sk_test_1'') \<lparr>backend = 0, sent = []\<rparr>
   = (Inr (Obj [(''merchant'', Obj [(''id'', Str ''m-1''), (''name'', Str ''Demo Shop'')]),
                (''payments'', Arr [Obj [(''payment_id'', Str ''p-1'')]]),
                (''dashboardHtml'', Str ''<h1>Demo Shop</h1>'')]),
      \<lparr>backend = 3,
       sent = [(\<lparr>cfg_method = GET, cfg_url = ''/api/v1/dashboard'',
                 cfg_baseURL = ''http://localhost:8001'',
                 cfg_headers = [(''Content-Type'', Str ''application/json''),
                                (''X-API-Key'', Str ''sk_test_1'')],
                 cfg_data = None, cfg_params = [], cfg_apiKey = None\<rparr>,
                Inr \<lparr>resp_status = 200, resp_data = Str ''<h1>Demo Shop</h1>''\<rparr>),
               (\<lparr>cfg_method = GET, cfg_url = ''/api/v1/merchants/me'',
                 cfg_baseURL = ''http://localhost:8001'',
                 cfg_headers = [(''Content-Type'', Str ''application/json''),
                                (''X-API-Key'', Str ''sk_test_1'')],
                 cfg_data = None, cfg_params = [], cfg_apiKey = None\<rparr>,
                Inr \<lparr>resp_status = 200,
                     resp_data = Obj [(''id'', Str ''m-1''), (''name'', Str ''Demo Shop'')]\<rparr>),
               (\<lparr>cfg_method = GET, cfg_url = ''/api/v1/payments/by-merchant/m-1'',
                 cfg_baseURL = ''http://localhost:8002'',
                 cfg_headers = [(''Content-Type'', Str ''application/json'')],
                 cfg_data = None, cfg_params = [], cfg_apiKey = None\<rparr>,
                Inr \<lparr>resp_status = 200,
                     resp_data = Arr [Obj [(''payment_id'', Str ''p-1'')]]\<rparr>)]\<rparr>)
   \<and> map (\<lambda>(c, out). cfg_url c) (sent (snd (getDashboard
     (\<lambda>c w. (Inr \<lparr>resp_status = 200,
                    resp_data =
                      (if cfg_url c = ''/api/v1/dashboard'' then Str ''<h1>Demo Shop</h1>''
                       else if cfg_url c = ''/api/v1/merchants/me''
                       then Obj [(''id'', Num (Int_num 7))]
                       else Arr [])\<rparr>, Suc w))
     \<lparr>VITE_API_BASE_URL = None, VITE_MERCHANT_SERVICE_URL = None, VITE_PAYMENT_SERVICE_URL = None\<rparr> (Str ''sk_test_1'') \<lparr>backend = 0, sent = []\<rparr>)))
   = [''/api/v1/dashboard'', ''/api/v1/merchants/me'', ''/api/v1/payments/by-merchant/7'']"
proof -
  let ?g = "getDashboard
     (\<lambda>c w. (Inr \<lparr>resp_status = 200,
                    resp_data =
                      (if cfg_url c = ''/api/v1/dashboard'' then Str ''<h1>Demo Shop</h1>''
                       else if cfg_url c = ''/api/v1/merchants/me''
                       then Obj [(''id'', Str ''m-1''), (''name'', Str ''Demo Shop'')]
                       else Arr [Obj [(''payment_id'', Str ''p-1'')]])\<rparr>, Suc w))
     \<lparr>VITE_API_BASE_URL = None, VITE_MERCHANT_SERVICE_URL = None, VITE_PAYMENT_SERVICE_URL = None\<rparr> (Str ''sk_test_1'') \<lparr>backend = 0::nat, sent = []\<rparr>"
  let ?h = "getDashboard
     (\<lambda>c w. (Inr \<lparr>resp_status = 200,
                    resp_data =
                      (if cfg_url c = ''/api/v1/dashboard'' then Str ''<h1>Demo Shop</h1>''
                       else if cfg_url c = ''/api/v1/merchants/me''
                       then Obj [(''id'', Num (Int_num 7))]
                       else Arr [])\<rparr>, Suc w))
     \<lparr>VITE_API_BASE_URL = None, VITE_MERCHANT_SERVICE_URL = None, VITE_PAYMENT_SERVICE_URL = None\<rparr> (Str ''sk_test_1'') \<lparr>backend = 0::nat, sent = []\<rparr>"
  have run: "?g = (fst ?g, snd ?g)" by simp
  have run2: "?h = (fst ?h, snd ?h)" by simp
  have seven: "Number_toString (Int_num 7) = ''7''" by code_simp
  have 1: "?g = (Inr (Obj [(''merchant'', Obj [(''id'', Str ''m-1''), (''name'', Str ''Demo Shop'')]),
                (''payments'', Arr [Obj [(''payment_id'', Str ''p-1'')]]),
                (''dashboardHtml'', Str ''<h1>Demo Shop</h1>'')]),
      \<lparr>backend = 3,
       sent = [(\<lparr>cfg_method = GET, cfg_url = ''/api/v1/dashboard'',
                 cfg_baseURL = ''http://localhost:8001'',
                 cfg_headers = [(''Content-Type'', Str ''application/json''),
                                (''X-API-Key'', Str ''sk_test_1'')],
                 cfg_data = None, cfg_params = [], cfg_apiKey = None\<rparr>,
                Inr \<lparr>resp_status = 200, resp_data = Str ''<h1>Demo Shop</h1>''\<rparr>),
               (\<lparr>cfg_method = GET, cfg_url = ''/api/v1/merchants/me'',
                 cfg_baseURL = ''http://localhost:8001'',
                 cfg_headers = [(''Content-Type'', Str ''application/json''),
                                (''X-API-Key'', Str ''sk_test_1'')],
                 cfg_data = None, cfg_params = [], cfg_apiKey = None\<rparr>,
                Inr \<lparr>resp_status = 200,
                     resp_data = Obj [(''id'', Str ''m-1''), (''name'', Str ''Demo Shop'')]\<rparr>),
               (\<lparr>cfg_method = GET, cfg_url = ''/api/v1/payments/by-merchant/m-1'',
                 cfg_baseURL = ''http://localhost:8002'',
                 cfg_headers = [(''Content-Type'', Str ''application/json'')],
                 cfg_data = None, cfg_params = [], cfg_apiKey = None\<rparr>,
                Inr \<lparr>resp_status = 200,
                     resp_data = Arr [Obj [(''payment_id'', Str ''p-1'')]]\<rparr>)]\<rparr>)"
    using getDashboard_three_calls [OF run]
    by (simp add: getDashboard_def apiClient_get_def dispatch_def apiClient_config_def
        request_interceptor_def String_js_def Let_def)
  have 2: "map (\<lambda>(c, out). cfg_url c) (sent (snd ?h))
     = [''/api/v1/dashboard'', ''/api/v1/merchants/me'', ''/api/v1/payments/by-merchant/7'']"
    using getDashboard_three_calls [OF run2]
    by (simp add: getDashboard_def apiClient_get_def dispatch_def apiClient_config_def
        request_interceptor_def String_js_def Let_def seven del: Number_toString.simps)
  from 1 2 show ?thesis by blast
qed

section \<open>Properties of the payment operation\<close>

lemma apiClient_post_eq:
  "apiClient_post tr e url body opts s =
     (let c = request_interceptor (apiClient_config e POST url (Some body) opts)
      in (fst (tr c (backend s)),
          \<lparr>backend = snd (tr c (backend s)), sent = sent s @ [(c, fst (tr c (backend s)))]\<rparr>))"
  by (simp add: apiClient_post_def dispatch_eq Let_def)

text \<open>
  C6. \<open>createPayment\<close> first asks the merchant service for the merchant of the credential;
  only when that call has succeeded does it submit to the gateway, and the body submitted
  holds the \<open>id\<close> of that merchant as \<open>merchant_id\<close>, the string coercion of the amount,
  the currency and the description unchanged, and the payment method of the request, or
  \<open>card\<close> when the request has none. The submission is made whenever the merchant is
  resolved and the amount has a string coercion.
\<close>

theorem createPayment_resolves_then_submits:
  fixes tr :: "'w transport"
  defines "resolve e k \<equiv> request_interceptor
     \<lparr>cfg_method = GET, cfg_url = ''/api/v1/merchants/me'',
      cfg_baseURL = or_default (VITE_MERCHANT_SERVICE_URL e) ''http://localhost:8001'',
      cfg_headers = [(''Content-Type'', Str ''application/json'')],
      cfg_data = None, cfg_params = [], cfg_apiKey = Some k\<rparr>"
    and "submit e k body \<equiv> request_interceptor
     \<lparr>cfg_method = POST, cfg_url = ''/v1/payments'',
      cfg_baseURL = or_default (VITE_API_BASE_URL e) ''http://localhost:8000'',
      cfg_headers = [(''Content-Type'', Str ''application/json'')],
      cfg_data = Some body, cfg_params = [], cfg_apiKey = Some k\<rparr>"
  assumes run: "createPayment tr e apiKey pd s = (r, s')"
  shows "((\<exists>o1. issued s s' = [(resolve e apiKey, o1)])
          \<or> (\<exists>m mid amountText o2.
                issued s s' =
                  [(resolve e apiKey, Inr m),
                   (submit e apiKey
                      (Obj [(''merchant_id'', mid),
                            (''amount'', Str amountText),
                            (''currency'', currency pd),
                            (''description'', description pd),
                            (''payment_method'',
                               if truthy (payment_method pd) then payment_method pd
                               else Str ''card'')]), o2)]
                \<and> get_prop (resp_data m) ''id'' = Inr mid
                \<and> String_js (amount pd) = Inr amountText
                \<and> r = (case o2 of Inl err \<Rightarrow> Inl err
                                   | Inr response \<Rightarrow> Inr (resp_data response))))
    \<and> (\<forall>m w1 mid amountText.
          tr (resolve e apiKey) (backend s) = (Inr m, w1)
          \<and> get_prop (resp_data m) ''id'' = Inr mid
          \<and> String_js (amount pd) = Inr amountText
          \<longrightarrow> length (issued s s') = 2)"
proof -
  have c1: "request_interceptor (apiClient_config e GET ''/api/v1/merchants/me'' None
          \<lparr>opt_apiKey = Some apiKey,
           opt_baseURL = Some (or_default (VITE_MERCHANT_SERVICE_URL e) ''http://localhost:8001''),
           opt_params = []\<rparr>) = resolve e apiKey"
    by (simp add: apiClient_config_def resolve_def)
  have c2: "request_interceptor (apiClient_config e POST ''/v1/payments'' (Some body)
          \<lparr>opt_apiKey = Some apiKey,
           opt_baseURL = Some (or_default (VITE_API_BASE_URL e) ''http://localhost:8000''),
           opt_params = []\<rparr>) = submit e apiKey body" for body
    by (simp add: apiClient_config_def submit_def)
  show ?thesis
    using run
    unfolding createPayment_def apiClient_get_eq apiClient_post_eq c1 c2 Let_def payment_body_def
      js_or_def
    by (auto simp: issued_def split: sum.splits prod.splits) blast+
qed

theorem createPayment_resolves_then_submits_witness:
  "createPayment
     (\<lambda>c w. (Inr \<lparr>resp_status = 200,
                    resp_data =
                      (if cfg_url c = ''/api/v1/merchants/me''
                       then Obj [(''id'', Str ''m-1''), (''name'', Str ''Demo Shop'')]
                       else Obj [(''payment_id'', Str ''p-1''), (''status'', Str ''succeeded'')])\<rparr>, w))
     \<lparr>VITE_API_BASE_URL = None, VITE_MERCHANT_SERVICE_URL = None, VITE_PAYMENT_SERVICE_URL = None\<rparr> (Str ''sk_test_1'') \<lparr>amount = Str ''100.00'', currency = Str ''RUB'', description = Str ''Order #1'', payment_method = Undefined\<rparr> \<lparr>backend = (), sent = []\<rparr>
   = (Inr (Obj [(''payment_id'', Str ''p-1''), (''status'', Str ''succeeded'')]),
      \<lparr>backend = (),
       sent = [(\<lparr>cfg_method = GET, cfg_url = ''/api/v1/merchants/me'',
                 cfg_baseURL = ''http://localhost:8001'',
                 cfg_headers = [(''Content-Type'', Str ''application/json''),
                                (''X-API-Key'', Str ''sk_test_1'')],
                 cfg_data = None, cfg_params = [], cfg_apiKey = None\<rparr>,
                Inr \<lparr>resp_status = 200,
                     resp_data = Obj [(''id'', Str ''m-1''), (''name'', Str ''Demo Shop'')]\<rparr>),
               (\<lparr>cfg_method = POST, cfg_url = ''/v1/payments'',
                 cfg_baseURL = ''http://localhost:8000'',
                 cfg_headers = [(''Content-Type'', Str ''application/json''),
                                (''X-API-Key'', Str ''sk_test_1'')],
                 cfg_data = Some (Obj [(''merchant_id'', Str ''m-1''),
                                       (''amount'', Str ''100.00''),
                                       (''currency'', Str ''RUB''),
                                       (''description'', Str ''Order #1''),
                                       (''payment_method'', Str ''card'')]),
                 cfg_params = [], cfg_apiKey = None\<rparr>,
                Inr \<lparr>resp_status = 200,
                     resp_data = Obj [(''payment_id'', Str ''p-1''),
                                      (''status'', Str ''succeeded'')]\<rparr>)]\<rparr>)"
proof -
  let ?g = "createPayment
     (\<lambda>c w. (Inr \<lparr>resp_status = 200,
                    resp_data =
                      (if cfg_url c = ''/api/v1/merchants/me''
                       then Obj [(''id'', Str ''m-1''), (''name'', Str ''Demo Shop'')]
                       else Obj [(''payment_id'', Str ''p-1''), (''status'', Str ''succeeded'')])\<rparr>, w))
     \<lparr>VITE_API_BASE_URL = None, VITE_MERCHANT_SERVICE_URL = None, VITE_PAYMENT_SERVICE_URL = None\<rparr> (Str ''sk_test_1'') \<lparr>amount = Str ''100.00'', currency = Str ''RUB'', description = Str ''Order #1'', payment_method = Undefined\<rparr> \<lparr>backend = (), sent = []\<rparr>"
  have run: "?g = (fst ?g, snd ?g)" by simp
  show ?thesis
    using createPayment_resolves_then_submits [OF run]
    by (simp add: createPayment_def apiClient_get_def apiClient_post_def dispatch_def
        apiClient_config_def request_interceptor_def String_js_def payment_body_def js_or_def Let_def)
qed

section \<open>Properties of the provider control\<close>

text \<open>
  C7. When the backend rejects a switch of provider, the handler records the detail text
  of the response as the error and leaves the current provider as it was; the current
  provider changes only when the response is successful, to the key that response names.
\<close>

theorem provider_switch_rejected:
  fixes fetch :: "'w fetcher"
  defines "req e providerName \<equiv>
     \<lparr>fetch_url = or_default (VITE_PAYMENT_SERVICE_URL e) ''http://localhost:8002''
                    @ ''/api/v1/provider'',
      fetch_method = PUT,
      fetch_headers = [(''Content-Type'', ''application/json'')],
      fetch_body = Some (Obj [(''provider'', providerName)])\<rparr>"
  assumes run: "handleProviderChange fetch e providerName st w = (st', timers, w')"
  shows "(\<forall>response errorData d.
            fst (fetch (req e providerName) w) = Inr response \<and> \<not> ok response
            \<and> json response = Inr errorData
            \<and> get_prop errorData ''detail'' = Inr (Str d) \<and> d \<noteq> []
            \<longrightarrow> error st' = Some d \<and> currentProvider st' = currentProvider st)
    \<and> (\<forall>response.
            fst (fetch (req e providerName) w) = Inr response \<and> \<not> ok response
            \<longrightarrow> currentProvider st' = currentProvider st \<and> error st' \<noteq> None
                \<and> \<not> success st')
    \<and> (currentProvider st' \<noteq> currentProvider st
         \<longrightarrow> (\<exists>response data.
                fst (fetch (req e providerName) w) = Inr response \<and> ok response
                \<and> json response = Inr data
                \<and> get_prop data ''current_provider'' = Inr (currentProvider st')))"
  using run
  unfolding handleProviderChange_def req_def Let_def provider_change_result_def
  by (auto simp: new_Error_def js_or_def split: sum.splits prod.splits if_splits)

theorem provider_switch_rejected_witness:
  "handleProviderChange
     (\<lambda>q w. (Inr \<lparr>ok = False,
                     json = Inr (Obj [(''detail'', Str ''Unknown provider: mock_x'')])\<rparr>, w))
     \<lparr>VITE_API_BASE_URL = None, VITE_MERCHANT_SERVICE_URL = None, VITE_PAYMENT_SERVICE_URL = None\<rparr> (Str ''mock_x'')
     \<lparr>currentProvider = Str ''mock_success'',
      availableProviders = Obj [(''mock_success'', Str ''Always succeeds''),
                                (''mock_failed'', Str ''Always fails'')],
      loading = False, error = None, success = False\<rparr> (0::nat)
   = (\<lparr>currentProvider = Str ''mock_success'',
       availableProviders = Obj [(''mock_success'', Str ''Always succeeds''),
                                 (''mock_failed'', Str ''Always fails'')],
       loading = False, error = Some ''Unknown provider: mock_x'', success = False\<rparr>, [], 0)"
proof -
  let ?g = "handleProviderChange
     (\<lambda>q w. (Inr \<lparr>ok = False,
                     json = Inr (Obj [(''detail'', Str ''Unknown provider: mock_x'')])\<rparr>, w))
     \<lparr>VITE_API_BASE_URL = None, VITE_MERCHANT_SERVICE_URL = None, VITE_PAYMENT_SERVICE_URL = None\<rparr> (Str ''mock_x'')
     \<lparr>currentProvider = Str ''mock_success'',
      availableProviders = Obj [(''mock_success'', Str ''Always succeeds''),
                                (''mock_failed'', Str ''Always fails'')],
      loading = False, error = None, success = False\<rparr> (0::nat)"
  have run: "?g = (fst ?g, fst (snd ?g), snd (snd ?g))" by simp
  show ?thesis
    using provider_switch_rejected [OF run]
    by (simp add: handleProviderChange_def provider_change_result_def new_Error_def js_or_def Let_def)
qed

end
